theory Spec2Isabelle
  imports Complex_Main
begin

section \<open>AdamWeightDecayOptimizer (src/optimizer.py)\<close>

text \<open>
  A shallow embedding of the class \<open>AdamWeightDecayOptimizer\<close>. Conventions:
  \<^item> Floating-point numbers are idealised as real numbers: rounding and overflow are
    out of scope. What is kept of IEEE arithmetic is that a division by zero and
    a square root of a negative number do not raise but give a non-finite value,
    which then spreads through every later operation (\<open>NonFinite\<close>).
  \<^item> Every operation of the update is elementwise, so a tensor is represented by
    one of its components.
  \<^item> A raise is a value \<open>Inl e\<close>; what a method mutates is returned.
\<close>

subsection \<open>Python values and errors\<close>

datatype pyval = PyNone | PyBool bool | PyInt int | PyFloat real

text \<open>Python's truth value of a hyperparameter, as tested by \<open>if not x\<close>.\<close>

fun truthy :: "pyval \<Rightarrow> bool" where
  "truthy PyNone = False"
| "truthy (PyBool b) = b"
| "truthy (PyInt i) = (i \<noteq> 0)"
| "truthy (PyFloat r) = (r \<noteq> 0)"

datatype error = ValueError | TypeError | AttributeError | PatternNotModelled

definition bind_err :: "error + 'a \<Rightarrow> ('a \<Rightarrow> error + 'b) \<Rightarrow> error + 'b" where
  "bind_err x f = (case x of Inl e \<Rightarrow> Inl e | Inr y \<Rightarrow> f y)"

subsection \<open>Tensor values\<close>

datatype tensor = Finite real | NonFinite

fun t_add :: "tensor \<Rightarrow> tensor \<Rightarrow> tensor" where
  "t_add (Finite x) (Finite y) = Finite (x + y)"
| "t_add _ _ = NonFinite"

fun t_sub :: "tensor \<Rightarrow> tensor \<Rightarrow> tensor" where
  "t_sub (Finite x) (Finite y) = Finite (x - y)"
| "t_sub _ _ = NonFinite"

fun t_mul :: "tensor \<Rightarrow> tensor \<Rightarrow> tensor" where
  "t_mul (Finite x) (Finite y) = Finite (x * y)"
| "t_mul _ _ = NonFinite"

text \<open>The operator \<open>/\<close> of tensors: a zero divisor gives an infinity or a NaN.\<close>

fun t_div :: "tensor \<Rightarrow> tensor \<Rightarrow> tensor" where
  "t_div (Finite x) (Finite y) = (if y = 0 then NonFinite else Finite (x / y))"
| "t_div _ _ = NonFinite"

text \<open>\<open>tf.sqrt\<close>: NaN on a negative argument.\<close>

definition t_sqrt :: "real \<Rightarrow> tensor" where
  "t_sqrt x = (if x < 0 then NonFinite else Finite (sqrt x))"

text \<open>
  \<open>ops.convert_to_tensor\<close> followed by \<open>math_ops.cast\<close> to the parameter's float
  type: \<open>None\<close> is rejected with a ValueError and an integer outside the signed
  64-bit range with a TypeError; any other number, or a truth value, becomes the
  float of the same value (the rounding of the cast is out of scope, as all
  rounding is).
\<close>

fun convert_to_tensor :: "pyval \<Rightarrow> error + real" where
  "convert_to_tensor PyNone = Inl ValueError"
| "convert_to_tensor (PyBool b) = Inr (if b then 1 else 0)"
| "convert_to_tensor (PyInt i) =
     (if - (2 ^ 63) \<le> i \<and> i < 2 ^ 63 then Inr (of_int i) else Inl TypeError)"
| "convert_to_tensor (PyFloat r) = Inr r"

subsection \<open>Regular expressions (\<open>re.search\<close>)\<close>

text \<open>
  Python's \<open>re.search\<close> on the fragment of the pattern language made of ordinary
  characters, \<open>.\<close>, \<open>^\<close> and \<open>$\<close>, without flags. A pattern with any other
  metacharacter is outside the fragment and gives \<open>PatternNotModelled\<close>.
\<close>

datatype atom = Lit char | AnyChar | Bol | Eol

definition newline :: char where
  "newline = CHR 0x0A"

definition metachars :: "char list" where
  "metachars = ''*+?{}[]()|'' @ [CHR 0x5C]"

fun re_compile :: "string \<Rightarrow> error + atom list" where
  "re_compile [] = Inr []"
| "re_compile (c # cs) =
     (if c \<in> set metachars then Inl PatternNotModelled
      else case re_compile cs of
             Inl e \<Rightarrow> Inl e
           | Inr as \<Rightarrow>
               Inr ((if c = CHR ''^'' then Bol
                     else if c = CHR ''$'' then Eol
                     else if c = CHR ''.'' then AnyChar
                     else Lit c) # as))"

text \<open>
  \<open>match_here as at_start s\<close>: the atoms \<open>as\<close> match a prefix of \<open>s\<close>, where
  \<open>at_start\<close> tells whether \<open>s\<close> is the whole subject string. \<open>^\<close> matches at
  the start of the subject only; \<open>$\<close> matches at its end and before a newline that
  ends it; \<open>.\<close> matches every character but a newline.
\<close>

fun match_here :: "atom list \<Rightarrow> bool \<Rightarrow> string \<Rightarrow> bool" where
  "match_here [] at_start s = True"
| "match_here (Bol # as) at_start s = (at_start \<and> match_here as at_start s)"
| "match_here (Eol # as) at_start s = ((s = [] \<or> s = [newline]) \<and> match_here as at_start s)"
| "match_here (AnyChar # as) at_start [] = False"
| "match_here (AnyChar # as) at_start (c # cs) = (c \<noteq> newline \<and> match_here as False cs)"
| "match_here (Lit d # as) at_start [] = False"
| "match_here (Lit d # as) at_start (c # cs) = (c = d \<and> match_here as False cs)"

text \<open>The scan of \<open>re.search\<close>: a match may begin at any position of the subject.\<close>

fun search_from :: "atom list \<Rightarrow> bool \<Rightarrow> string \<Rightarrow> bool" where
  "search_from as at_start [] = match_here as at_start []"
| "search_from as at_start (c # cs) =
     (match_here as at_start (c # cs) \<or> search_from as False cs)"

text \<open>\<open>re.search(r, s) is not None\<close>.\<close>

definition re_search :: "string \<Rightarrow> string \<Rightarrow> error + bool" where
  "re_search r s = bind_err (re_compile r) (\<lambda>as. Inr (search_from as True s))"

text \<open>A pattern without special characters, which stands for itself.\<close>

definition is_literal :: "string \<Rightarrow> bool" where
  "is_literal p =
     list_all (\<lambda>c. c \<notin> set metachars \<and> c \<noteq> CHR ''^'' \<and> c \<noteq> CHR ''$'' \<and> c \<noteq> CHR ''.'') p"

subsection \<open>The optimizer object and the variables\<close>

text \<open>
  The attributes \<open>learning_rate_t\<close> ... \<open>epsilon_t\<close> exist only once \<open>_prepare\<close> has
  run (\<open>None\<close> before). \<open>slots\<close> is the framework's table of slot variables, keyed
  by slot name and variable; it is an association list so that a duplicate entry
  would be visible.
\<close>

record optimizer =
  opt_name :: string
  learning_rate :: pyval
  weight_decay_rate :: pyval
  beta_1 :: pyval
  beta_2 :: pyval
  epsilon :: pyval
  exclude_from_weight_decay :: "string list option"
  learning_rate_t :: "real option"
  weight_decay_rate_t :: "real option"
  beta_1_t :: "real option"
  beta_2_t :: "real option"
  epsilon_t :: "real option"
  slots :: "((string \<times> string) \<times> real) list"

record variable =
  var_name :: string
  var_value :: tensor

text \<open>
  \<open>__init__\<close>. The call of the base class's constructor rejects an empty name and
  creates the empty slot table; the body stores the six arguments as they are.
\<close>

definition init ::
  "pyval \<Rightarrow> pyval \<Rightarrow> pyval \<Rightarrow> pyval \<Rightarrow> pyval \<Rightarrow> string list option \<Rightarrow> string
   \<Rightarrow> error + optimizer" where
  "init lr wd b1 b2 eps excl name =
     (if name = [] then Inl ValueError
      else Inr \<lparr>opt_name = name,
                learning_rate = lr,
                weight_decay_rate = wd,
                beta_1 = b1,
                beta_2 = b2,
                epsilon = eps,
                exclude_from_weight_decay = excl,
                learning_rate_t = None,
                weight_decay_rate_t = None,
                beta_1_t = None,
                beta_2_t = None,
                epsilon_t = None,
                slots = []\<rparr>)"

text \<open>\<open>_prepare\<close>.\<close>

definition prepare :: "optimizer \<Rightarrow> error + optimizer" where
  "prepare self =
     bind_err (convert_to_tensor (learning_rate self)) (\<lambda>lr.
     bind_err (convert_to_tensor (weight_decay_rate self)) (\<lambda>wd.
     bind_err (convert_to_tensor (beta_1 self)) (\<lambda>b1.
     bind_err (convert_to_tensor (beta_2 self)) (\<lambda>b2.
     bind_err (convert_to_tensor (epsilon self)) (\<lambda>eps.
       Inr (self\<lparr>learning_rate_t := Some lr,
                 weight_decay_rate_t := Some wd,
                 beta_1_t := Some b1,
                 beta_2_t := Some b2,
                 epsilon_t := Some eps\<rparr>))))))"

text \<open>Reading an attribute that \<open>_prepare\<close> sets.\<close>

definition get_attr :: "real option \<Rightarrow> error + real" where
  "get_attr a = (case a of None \<Rightarrow> Inl AttributeError | Some x \<Rightarrow> Inr x)"

subsection \<open>Slots\<close>

text \<open>\<open>get_slot\<close>: the slot variable of that name for the variable, or \<open>None\<close>.\<close>

definition get_slot :: "optimizer \<Rightarrow> variable \<Rightarrow> string \<Rightarrow> real option" where
  "get_slot self var slot_name = map_of (slots self) (slot_name, var_name var)"

text \<open>\<open>assign\<close> on a slot variable: its value is overwritten in place.\<close>

fun slot_assign ::
  "(string \<times> string) \<Rightarrow> real \<Rightarrow> ((string \<times> string) \<times> real) list
   \<Rightarrow> ((string \<times> string) \<times> real) list" where
  "slot_assign k x [] = []"
| "slot_assign k x ((k', y) # kvs) =
     (if k' = k then (k', x) # kvs else (k', y) # slot_assign k x kvs)"

text \<open>
  Modelled from the spec: the base class's \<open>_zeros_slot\<close>, which is not part of
  the source. The spec: allocate a zero-valued accumulator for the parameter;
  calling it again for an already-registered parameter is a no-op or a re-zeroing,
  and never creates a duplicate accumulator. \<open>rezero\<close> selects which of the two
  permitted behaviours an existing accumulator gets.
\<close>

definition zeros_slot :: "bool \<Rightarrow> variable \<Rightarrow> string \<Rightarrow> optimizer \<Rightarrow> optimizer" where
  "zeros_slot rezero var slot_name self =
     (let k = (slot_name, var_name var) in
      if k \<in> fst ` set (slots self)
      then (if rezero then self\<lparr>slots := slot_assign k 0 (slots self)\<rparr> else self)
      else self\<lparr>slots := slots self @ [(k, 0)]\<rparr>)"

text \<open>\<open>_create_slots\<close>.\<close>

fun create_slots :: "bool \<Rightarrow> variable list \<Rightarrow> optimizer \<Rightarrow> optimizer" where
  "create_slots rezero [] self = self"
| "create_slots rezero (v # var_list) self =
     create_slots rezero var_list
       (zeros_slot rezero v ''v'' (zeros_slot rezero v ''m'' self))"

subsection \<open>The weight-decay decision\<close>

text \<open>The loop of \<open>_do_use_weight_decay\<close> over the exclusion patterns.\<close>

fun exclude_loop :: "string list \<Rightarrow> string \<Rightarrow> error + bool" where
  "exclude_loop [] param_name = Inr True"
| "exclude_loop (r # rs) param_name =
     (case re_search r param_name of
        Inl e \<Rightarrow> Inl e
      | Inr hit \<Rightarrow> if hit then Inr False else exclude_loop rs param_name)"

text \<open>\<open>_do_use_weight_decay\<close>.\<close>

definition do_use_weight_decay :: "optimizer \<Rightarrow> string \<Rightarrow> error + bool" where
  "do_use_weight_decay self param_name =
     (if \<not> truthy (weight_decay_rate self) then Inr False
      else case exclude_from_weight_decay self of
             None \<Rightarrow> Inr True
           | Some rs \<Rightarrow> if rs = [] then Inr True else exclude_loop rs param_name)"

subsection \<open>The two dense update paths\<close>

text \<open>
  \<open>_resource_apply_dense\<close>. A slot that was never created is \<open>None\<close>, which
  \<open>tf.multiply\<close> rejects with a ValueError. The result is the variable and the
  optimizer after the three assignments.
\<close>

definition resource_apply_dense ::
  "optimizer \<Rightarrow> real \<Rightarrow> variable \<Rightarrow> error + (variable \<times> optimizer)" where
  "resource_apply_dense self grad var =
     bind_err (get_attr (learning_rate_t self)) (\<lambda>lr_t.
     bind_err (get_attr (beta_1_t self)) (\<lambda>b1_t.
     bind_err (get_attr (beta_2_t self)) (\<lambda>b2_t.
     bind_err (get_attr (epsilon_t self)) (\<lambda>eps_t.
     bind_err (get_attr (weight_decay_rate_t self)) (\<lambda>wd_t.
       case get_slot self var ''m'' of
         None \<Rightarrow> Inl ValueError
       | Some m \<Rightarrow>
          (case get_slot self var ''v'' of
             None \<Rightarrow> Inl ValueError
           | Some v \<Rightarrow>
              (let next_m = b1_t * m + (1 - b1_t) * grad;
                   next_v = b2_t * v + (1 - b2_t) * (grad * grad);
                   update = t_div (Finite next_m) (t_add (t_sqrt next_v) (Finite eps_t))
               in bind_err (do_use_weight_decay self (var_name var)) (\<lambda>decay.
                    let update' = (if decay
                                   then t_add update (t_mul (Finite wd_t) (var_value var))
                                   else update);
                        update_with_lr = t_mul (Finite lr_t) update';
                        next_param = t_sub (var_value var) update_with_lr
                    in Inr (var\<lparr>var_value := next_param\<rparr>,
                            self\<lparr>slots :=
                                   slot_assign (''v'', var_name var) next_v
                                     (slot_assign (''m'', var_name var) next_m
                                        (slots self))\<rparr>)))))))))"

text \<open>
  \<open>_apply_dense\<close>. It differs from \<open>_resource_apply_dense\<close> in one place: the name
  given to \<open>_do_use_weight_decay\<close> is \<open>self._get_variable_name(var)\<close>. The class
  defines no method of that name. The attribute lookup is the parameter \<open>gvn\<close>:
  \<open>None\<close> when no class of the object defines the method, so that the lookup
  raises an AttributeError, and \<open>Some f\<close> when one does.
\<close>

definition apply_dense ::
  "(variable \<Rightarrow> string) option \<Rightarrow> optimizer \<Rightarrow> real \<Rightarrow> variable
   \<Rightarrow> error + (variable \<times> optimizer)" where
  "apply_dense gvn self grad var =
     bind_err (get_attr (learning_rate_t self)) (\<lambda>lr_t.
     bind_err (get_attr (beta_1_t self)) (\<lambda>b1_t.
     bind_err (get_attr (beta_2_t self)) (\<lambda>b2_t.
     bind_err (get_attr (epsilon_t self)) (\<lambda>eps_t.
     bind_err (get_attr (weight_decay_rate_t self)) (\<lambda>wd_t.
       case get_slot self var ''m'' of
         None \<Rightarrow> Inl ValueError
       | Some m \<Rightarrow>
          (case get_slot self var ''v'' of
             None \<Rightarrow> Inl ValueError
           | Some v \<Rightarrow>
              (let next_m = b1_t * m + (1 - b1_t) * grad;
                   next_v = b2_t * v + (1 - b2_t) * (grad * grad);
                   update = t_div (Finite next_m) (t_add (t_sqrt next_v) (Finite eps_t))
               in case gvn of
                    None \<Rightarrow> Inl AttributeError
                  | Some get_variable_name \<Rightarrow>
                     bind_err (do_use_weight_decay self (get_variable_name var)) (\<lambda>decay.
                       let update' = (if decay
                                      then t_add update (t_mul (Finite wd_t) (var_value var))
                                      else update);
                           update_with_lr = t_mul (Finite lr_t) update';
                           next_param = t_sub (var_value var) update_with_lr
                       in Inr (var\<lparr>var_value := next_param\<rparr>,
                               self\<lparr>slots :=
                                      slot_assign (''v'', var_name var) next_v
                                        (slot_assign (''m'', var_name var) next_m
                                           (slots self))\<rparr>)))))))))"

text \<open>
  A training run on one parameter: one call of \<open>_resource_apply_dense\<close> for each
  gradient of the list, in order, stopping at the first raise.
\<close>

fun apply_steps ::
  "optimizer \<Rightarrow> variable \<Rightarrow> real list \<Rightarrow> error + (variable \<times> optimizer)" where
  "apply_steps self var [] = Inr (var, self)"
| "apply_steps self var (g # gs) =
     (case resource_apply_dense self g var of
        Inl e \<Rightarrow> Inl e
      | Inr (var', self') \<Rightarrow> apply_steps self' var' gs)"

subsection \<open>Concrete optimizers\<close>

text \<open>
  The optimizer that \<open>__init__\<close> builds from the default hyperparameters of the
  class with learning rate 0.01, for a given weight-decay rate and exclusion list,
  and the same optimizer once \<open>_prepare\<close> has run with a decay rate \<open>wd\<close>.
\<close>

definition default_opt :: "pyval \<Rightarrow> string list option \<Rightarrow> optimizer" where
  "default_opt wd excl =
     \<lparr>opt_name = ''AdamWeightDecayOptimizer'',
      learning_rate = PyFloat (1 / 100),
      weight_decay_rate = wd,
      beta_1 = PyFloat (9 / 10),
      beta_2 = PyFloat (999 / 1000),
      epsilon = PyFloat (1 / 1000000),
      exclude_from_weight_decay = excl,
      learning_rate_t = None,
      weight_decay_rate_t = None,
      beta_1_t = None,
      beta_2_t = None,
      epsilon_t = None,
      slots = []\<rparr>"

definition prepared_opt :: "real \<Rightarrow> string list option \<Rightarrow> optimizer" where
  "prepared_opt wd excl =
     (default_opt (PyFloat wd) excl)
       \<lparr>learning_rate_t := Some (1 / 100),
        weight_decay_rate_t := Some wd,
        beta_1_t := Some (9 / 10),
        beta_2_t := Some (999 / 1000),
        epsilon_t := Some (1 / 1000000)\<rparr>"

text \<open>The prepared optimizer after \<open>_create_slots\<close> for one parameter named \<open>n\<close>.\<close>

definition fresh_opt :: "real \<Rightarrow> string list option \<Rightarrow> string \<Rightarrow> optimizer" where
  "fresh_opt wd excl n =
     create_slots False [\<lparr>var_name = n, var_value = Finite 0\<rparr>] (prepared_opt wd excl)"

text \<open>
  The optimizer built with \<open>epsilon = 0\<close> and otherwise the default
  hyperparameters, prepared, with the slots of the parameter \<open>w\<close> created.
\<close>

definition zero_eps_opt :: optimizer where
  "zero_eps_opt = (fresh_opt 0 None ''w'')\<lparr>epsilon := PyFloat 0, epsilon_t := Some 0\<rparr>"

text \<open>
  A key is settled when a further \<open>_zeros_slot\<close> for it changes nothing: it is in
  the table, and holds zero if an existing accumulator is re-zeroed.
\<close>

definition settled :: "bool \<Rightarrow> optimizer \<Rightarrow> string \<times> string \<Rightarrow> bool" where
  "settled rezero self k =
     (k \<in> fst ` set (slots self) \<and> (rezero \<longrightarrow> map_of (slots self) k = Some 0))"

section \<open>Properties\<close>

subsection \<open>Auxiliary facts\<close>

lemma bind_err_simps:
  "bind_err (Inl e) f = Inl e"
  "bind_err (Inr y) f = f y"
  by (simp_all add: bind_err_def)

lemma init_default_opt:
  "init (PyFloat (1 / 100)) wd (PyFloat (9 / 10)) (PyFloat (999 / 1000))
     (PyFloat (1 / 1000000)) excl ''AdamWeightDecayOptimizer'' = Inr (default_opt wd excl)"
  by (simp add: init_def default_opt_def)

lemma prepare_default_opt:
  "prepare (default_opt (PyFloat wd) excl) = Inr (prepared_opt wd excl)"
  by (simp add: prepare_def prepared_opt_def default_opt_def bind_err_simps)

lemma re_search_bias: "re_search ''bias'' ''layer1/bias'' = Inr True"
  by (simp add: re_search_def bind_err_simps metachars_def newline_def)

lemma re_search_anchored_bias: "re_search ''^bias$'' ''layer1/bias'' = Inr False"
  by (simp add: re_search_def bind_err_simps metachars_def newline_def)

lemma re_search_anchored_bias_exact: "re_search ''^bias$'' ''bias'' = Inr True"
  by (simp add: re_search_def bind_err_simps metachars_def newline_def)

lemma exclude_loop_hit:
  "r \<in> set rs \<Longrightarrow> re_search r s = Inr True
   \<Longrightarrow> \<forall>r' \<in> set rs. \<exists>as. re_compile r' = Inr as
   \<Longrightarrow> exclude_loop rs s = Inr False"
proof (induction rs)
  case Nil
  then show ?case by simp
next
  case (Cons a rs)
  then obtain as where as: "re_compile a = Inr as" by auto
  show ?case
  proof (cases "search_from as True s")
    case True
    with as show ?thesis by (simp add: re_search_def bind_err_simps)
  next
    case False
    with as Cons show ?thesis by (auto simp add: re_search_def bind_err_simps)
  qed
qed

text \<open>
  What \<open>re.search\<close> computes on a literal pattern, on a literal pattern between
  \<open>^\<close> and \<open>$\<close>, and on \<open>.\<close>.
\<close>

lemma re_compile_literal: "is_literal p \<Longrightarrow> re_compile p = Inr (map Lit p)"
  by (induction p) (simp_all add: is_literal_def)

lemma re_compile_literal_eol:
  "is_literal p \<Longrightarrow> re_compile (p @ ''$'') = Inr (map Lit p @ [Eol])"
  by (induction p) (simp_all add: is_literal_def metachars_def)

lemma re_compile_anchored:
  "is_literal p \<Longrightarrow> re_compile (CHR ''^'' # p @ ''$'') = Inr (Bol # map Lit p @ [Eol])"
  by (simp add: re_compile_literal_eol metachars_def)

lemma match_here_literal: "match_here (map Lit p) b s = (\<exists>post. s = p @ post)"
proof (induction p arbitrary: b s)
  case Nil
  show ?case by simp
next
  case (Cons d p)
  show ?case by (cases s) (auto simp add: Cons.IH)
qed

lemma search_from_literal:
  "search_from (map Lit p) b s = (\<exists>pre post. s = pre @ p @ post)"
proof (induction s arbitrary: b)
  case Nil
  show ?case by (simp add: match_here_literal)
next
  case (Cons c cs)
  have "(\<exists>pre post. c # cs = pre @ p @ post)
        \<longleftrightarrow> (\<exists>post. c # cs = p @ post) \<or> (\<exists>pre post. cs = pre @ p @ post)"
  proof
    assume "\<exists>pre post. c # cs = pre @ p @ post"
    then obtain pre post where e: "c # cs = pre @ p @ post" by blast
    show "(\<exists>post. c # cs = p @ post) \<or> (\<exists>pre post. cs = pre @ p @ post)"
    proof (cases pre)
      case Nil
      with e show ?thesis by auto
    next
      case (Cons a pre')
      with e have "cs = pre' @ p @ post" by simp
      then show ?thesis by blast
    qed
  next
    assume "(\<exists>post. c # cs = p @ post) \<or> (\<exists>pre post. cs = pre @ p @ post)"
    then show "\<exists>pre post. c # cs = pre @ p @ post"
    proof
      assume "\<exists>post. c # cs = p @ post"
      then obtain post where "c # cs = [] @ p @ post" by auto
      then show ?thesis by blast
    next
      assume "\<exists>pre post. cs = pre @ p @ post"
      then obtain pre post where "c # cs = (c # pre) @ p @ post" by auto
      then show ?thesis by blast
    qed
  qed
  then show ?case by (simp add: match_here_literal Cons.IH)
qed

lemma re_search_literal:
  "is_literal p \<Longrightarrow> re_search p s = Inr (\<exists>pre post. s = pre @ p @ post)"
  by (simp add: re_search_def re_compile_literal bind_err_simps search_from_literal)

lemma match_here_literal_eol:
  "match_here (map Lit p @ [Eol]) b s = (s = p \<or> s = p @ [newline])"
proof (induction p arbitrary: b s)
  case Nil
  show ?case by auto
next
  case (Cons d p)
  show ?case by (cases s) (auto simp add: Cons.IH)
qed

lemma search_from_bol_later: "search_from (Bol # as) False s = False"
  by (induction s) simp_all

lemma search_from_anchored:
  "search_from (Bol # map Lit p @ [Eol]) True s = (s = p \<or> s = p @ [newline])"
  by (cases s) (simp_all add: match_here_literal_eol search_from_bol_later)

lemma re_search_anchored:
  "is_literal p \<Longrightarrow> re_search (CHR ''^'' # p @ ''$'') s = Inr (s = p \<or> s = p @ [newline])"
  by (simp add: re_search_def re_compile_anchored bind_err_simps search_from_anchored
      del: re_compile.simps)

lemma search_from_any: "search_from [AnyChar] b s = (\<exists>c \<in> set s. c \<noteq> newline)"
  by (induction s arbitrary: b) auto

lemma re_search_dot: "re_search ''.'' s = Inr (\<exists>c \<in> set s. c \<noteq> newline)"
  by (simp add: re_search_def bind_err_simps metachars_def search_from_any)

lemma re_search_dot_bias: "re_search ''layer./bias'' ''layer1/bias'' = Inr True"
  by (simp add: re_search_def bind_err_simps metachars_def newline_def)

lemma exclude_loop_first_hit:
  "\<forall>r \<in> set pre. \<exists>as. re_compile r = Inr as \<Longrightarrow> re_search r s = Inr True
   \<Longrightarrow> exclude_loop (pre @ r # post) s = Inr False"
proof (induction pre)
  case Nil
  then show ?case by simp
next
  case (Cons a pre)
  then obtain as where as: "re_compile a = Inr as" by auto
  show ?case
  proof (cases "search_from as True s")
    case True
    with as show ?thesis by (simp add: re_search_def bind_err_simps)
  next
    case False
    with as Cons show ?thesis by (simp add: re_search_def bind_err_simps)
  qed
qed

lemma exclude_loop_never_true:
  "r \<in> set rs \<Longrightarrow> re_search r s = Inr True \<Longrightarrow> exclude_loop rs s \<noteq> Inr True"
proof (induction rs)
  case Nil
  then show ?case by simp
next
  case (Cons a rs)
  show ?case
  proof (cases "re_search a s")
    case (Inl e)
    then show ?thesis by simp
  next
    case (Inr hit)
    with Cons show ?thesis by (cases hit) auto
  qed
qed


lemma do_use_weight_decay_list:
  "truthy (weight_decay_rate self) \<Longrightarrow> exclude_from_weight_decay self = Some rs
   \<Longrightarrow> do_use_weight_decay self n = exclude_loop rs n"
  by (cases rs) (simp_all add: do_use_weight_decay_def)

lemma map_of_slot_assign_same:
  "map_of kvs k = Some y \<Longrightarrow> map_of (slot_assign k x kvs) k = Some x"
  by (induction kvs) auto

lemma map_of_slot_assign_other:
  "k' \<noteq> k \<Longrightarrow> map_of (slot_assign k x kvs) k' = map_of kvs k'"
  by (induction kvs) auto

lemma keys_slot_assign: "map fst (slot_assign k x kvs) = map fst kvs"
  by (induction kvs) auto

lemma slot_assign_same_value:
  "map_of kvs k = Some x \<Longrightarrow> slot_assign k x kvs = kvs"
  by (induction kvs) auto

lemma get_slot_after:
  assumes "get_slot self var ''m'' = Some m" "get_slot self var ''v'' = Some v"
  shows "get_slot (self\<lparr>slots := slot_assign (''v'', var_name var) v'
                          (slot_assign (''m'', var_name var) m' (slots self))\<rparr>) var ''m''
         = Some m'"
    and "get_slot (self\<lparr>slots := slot_assign (''v'', var_name var) v'
                          (slot_assign (''m'', var_name var) m' (slots self))\<rparr>) var ''v''
         = Some v'"
  using assms
  by (simp_all add: get_slot_def map_of_slot_assign_other map_of_slot_assign_same)

lemma slots_fresh_opt: "slots (fresh_opt wd excl n) = [((''m'', n), 0), ((''v'', n), 0)]"
  by (simp add: fresh_opt_def zeros_slot_def prepared_opt_def default_opt_def Let_def)

lemma attrs_fresh_opt:
  "learning_rate_t (fresh_opt wd excl n) = Some (1 / 100)"
  "beta_1_t (fresh_opt wd excl n) = Some (9 / 10)"
  "beta_2_t (fresh_opt wd excl n) = Some (999 / 1000)"
  "epsilon_t (fresh_opt wd excl n) = Some (1 / 1000000)"
  "weight_decay_rate_t (fresh_opt wd excl n) = Some wd"
  "weight_decay_rate (fresh_opt wd excl n) = PyFloat wd"
  "exclude_from_weight_decay (fresh_opt wd excl n) = excl"
  by (simp_all add: fresh_opt_def zeros_slot_def prepared_opt_def default_opt_def Let_def)

lemma get_slot_fresh_opt:
  "get_slot (fresh_opt wd excl n) \<lparr>var_name = n, var_value = x\<rparr> ''m'' = Some 0"
  "get_slot (fresh_opt wd excl n) \<lparr>var_name = n, var_value = x\<rparr> ''v'' = Some 0"
  by (simp_all add: get_slot_def slots_fresh_opt)

text \<open>What the two update paths return when nothing raises before the decision.\<close>

lemma resource_apply_dense_result:
  assumes "learning_rate_t self = Some lr" "beta_1_t self = Some b1" "beta_2_t self = Some b2"
    "epsilon_t self = Some eps" "weight_decay_rate_t self = Some wd"
    "get_slot self var ''m'' = Some m" "get_slot self var ''v'' = Some v"
    "do_use_weight_decay self (var_name var) = Inr decay"
  shows "resource_apply_dense self grad var =
     Inr (var\<lparr>var_value :=
               t_sub (var_value var)
                 (t_mul (Finite lr)
                    (if decay
                     then t_add (t_div (Finite (b1 * m + (1 - b1) * grad))
                                   (t_add (t_sqrt (b2 * v + (1 - b2) * (grad * grad)))
                                      (Finite eps)))
                            (t_mul (Finite wd) (var_value var))
                     else t_div (Finite (b1 * m + (1 - b1) * grad))
                            (t_add (t_sqrt (b2 * v + (1 - b2) * (grad * grad)))
                               (Finite eps))))\<rparr>,
          self\<lparr>slots := slot_assign (''v'', var_name var) (b2 * v + (1 - b2) * (grad * grad))
                          (slot_assign (''m'', var_name var) (b1 * m + (1 - b1) * grad)
                             (slots self))\<rparr>)"
  using assms
  by (simp add: resource_apply_dense_def get_attr_def bind_err_def Let_def)

lemma apply_dense_result:
  assumes "learning_rate_t self = Some lr" "beta_1_t self = Some b1" "beta_2_t self = Some b2"
    "epsilon_t self = Some eps" "weight_decay_rate_t self = Some wd"
    "get_slot self var ''m'' = Some m" "get_slot self var ''v'' = Some v"
    "do_use_weight_decay self (f var) = Inr decay"
  shows "apply_dense (Some f) self grad var =
     Inr (var\<lparr>var_value :=
               t_sub (var_value var)
                 (t_mul (Finite lr)
                    (if decay
                     then t_add (t_div (Finite (b1 * m + (1 - b1) * grad))
                                   (t_add (t_sqrt (b2 * v + (1 - b2) * (grad * grad)))
                                      (Finite eps)))
                            (t_mul (Finite wd) (var_value var))
                     else t_div (Finite (b1 * m + (1 - b1) * grad))
                            (t_add (t_sqrt (b2 * v + (1 - b2) * (grad * grad)))
                               (Finite eps))))\<rparr>,
          self\<lparr>slots := slot_assign (''v'', var_name var) (b2 * v + (1 - b2) * (grad * grad))
                          (slot_assign (''m'', var_name var) (b1 * m + (1 - b1) * grad)
                             (slots self))\<rparr>)"
  using assms
  by (simp add: apply_dense_def get_attr_def bind_err_def Let_def)

lemma zero_eps_opt_built:
  "bind_err (init (PyFloat (1 / 100)) (PyFloat 0) (PyFloat (9 / 10)) (PyFloat (999 / 1000))
               (PyFloat 0) None ''AdamWeightDecayOptimizer'')
     (\<lambda>opt. bind_err (prepare opt)
        (\<lambda>opt'. Inr (create_slots False [\<lparr>var_name = ''w'', var_value = Finite 1\<rparr>] opt')))
   = Inr zero_eps_opt"
  by (simp add: init_def prepare_def bind_err_simps zeros_slot_def Let_def zero_eps_opt_def
      fresh_opt_def prepared_opt_def default_opt_def)

lemma apply_dense_agrees_when_defined:
  "do_use_weight_decay self (f var) = do_use_weight_decay self (var_name var)
   \<Longrightarrow> apply_dense (Some f) self grad var = resource_apply_dense self grad var"
  by (simp add: apply_dense_def resource_apply_dense_def bind_err_def Let_def
      split: option.splits sum.splits)

lemma apply_dense_undefined_method:
  assumes "learning_rate_t self = Some lr" "beta_1_t self = Some b1" "beta_2_t self = Some b2"
    "epsilon_t self = Some eps" "weight_decay_rate_t self = Some wd"
    "get_slot self var ''m'' = Some m" "get_slot self var ''v'' = Some v"
  shows "apply_dense None self grad var = Inl AttributeError"
  using assms by (simp add: apply_dense_def get_attr_def bind_err_def Let_def)

text \<open>A step with a zero gradient on zero accumulators leaves the optimizer as it is.\<close>

lemma step_zero_gradient:
  assumes "learning_rate_t self = Some lr" "beta_1_t self = Some b1" "beta_2_t self = Some b2"
    "epsilon_t self = Some eps" "weight_decay_rate_t self = Some wd"
    "get_slot self var ''m'' = Some 0" "get_slot self var ''v'' = Some 0"
    "do_use_weight_decay self (var_name var) = Inr decay"
    "eps \<noteq> 0"
  shows "resource_apply_dense self 0 var =
     Inr (var\<lparr>var_value :=
               t_sub (var_value var)
                 (t_mul (Finite lr)
                    (if decay then t_add (Finite 0) (t_mul (Finite wd) (var_value var))
                     else Finite 0))\<rparr>, self)"
proof -
  have "slot_assign (''m'', var_name var) 0 (slots self) = slots self"
    using assms(6) by (simp add: get_slot_def slot_assign_same_value)
  moreover have "slot_assign (''v'', var_name var) 0 (slots self) = slots self"
    using assms(7) by (simp add: get_slot_def slot_assign_same_value)
  ultimately show ?thesis
    using assms(9)
    by (simp add: resource_apply_dense_result [OF assms(1-8)] t_sqrt_def)
qed

lemma t_sub_zero_update: "t_sub x (Finite 0) = x"
  by (cases x) simp_all

lemma var_value_same: "var\<lparr>var_value := var_value var\<rparr> = var" by simp

lemma do_use_weight_decay_slots:
  "do_use_weight_decay (self\<lparr>slots := kvs\<rparr>) n = do_use_weight_decay self n"
  by (simp add: do_use_weight_decay_def)

lemma next_v_nonneg:
  fixes b2 v grad :: real
  assumes "0 < b2" "b2 < 1" "0 \<le> v"
  shows "0 \<le> b2 * v + (1 - b2) * (grad * grad)"
proof -
  have "0 \<le> b2 * v" using assms by simp
  moreover have "0 \<le> (1 - b2) * (grad * grad)" using assms by simp
  ultimately show ?thesis by linarith
qed

lemma denominator_pos:
  fixes x eps :: real
  assumes "0 \<le> x" "0 < eps"
  shows "0 < sqrt x + eps"
proof -
  have "0 \<le> sqrt x" using assms(1) by simp
  with assms(2) show ?thesis by linarith
qed

lemma apply_steps_invariant:
  assumes "learning_rate_t self = Some lr" "beta_1_t self = Some b1" "beta_2_t self = Some b2"
    "epsilon_t self = Some eps" "weight_decay_rate_t self = Some wd"
    "0 < b2" "b2 < 1" "0 < eps"
    "get_slot self var ''m'' = Some m" "get_slot self var ''v'' = Some v" "0 \<le> v"
    "do_use_weight_decay self (var_name var) = Inr decay"
    "var_value var = Finite x"
  shows "\<exists>var' self' v' x'.
           apply_steps self var gs = Inr (var', self')
         \<and> get_slot self' var ''v'' = Some v' \<and> 0 \<le> v' \<and> 0 < sqrt v' + eps
         \<and> var_value var' = Finite x'"
  using assms
proof (induction gs arbitrary: self var m v x)
  case Nil
  then show ?case by (simp add: denominator_pos)
next
  case (Cons g gs)
  let ?m = "b1 * m + (1 - b1) * g"
  let ?v = "b2 * v + (1 - b2) * (g * g)"
  let ?self = "self\<lparr>slots := slot_assign (''v'', var_name var) ?v
                          (slot_assign (''m'', var_name var) ?m (slots self))\<rparr>"
  have v: "0 \<le> ?v" using Cons.prems(6,7,11) by (rule next_v_nonneg)
  then have den: "sqrt ?v + eps \<noteq> 0" using denominator_pos [OF v Cons.prems(8)] by simp
  have "\<exists>x'. t_sub (var_value var)
                 (t_mul (Finite lr)
                    (if decay
                     then t_add (t_div (Finite ?m) (t_add (t_sqrt ?v) (Finite eps)))
                            (t_mul (Finite wd) (var_value var))
                     else t_div (Finite ?m) (t_add (t_sqrt ?v) (Finite eps)))) = Finite x'"
    using v den Cons.prems(13) by (cases decay) (simp_all add: t_sqrt_def)
  then obtain x' where x': "t_sub (var_value var)
                 (t_mul (Finite lr)
                    (if decay
                     then t_add (t_div (Finite ?m) (t_add (t_sqrt ?v) (Finite eps)))
                            (t_mul (Finite wd) (var_value var))
                     else t_div (Finite ?m) (t_add (t_sqrt ?v) (Finite eps)))) = Finite x'"
    by blast
  let ?var = "var\<lparr>var_value := Finite x'\<rparr>"
  have step: "resource_apply_dense self g var = Inr (?var, ?self)"
    using resource_apply_dense_result [OF Cons.prems(1-5,9,10,12), of g] x' by simp
  have gs': "get_slot ?self ?var ''m'' = Some ?m" "get_slot ?self ?var ''v'' = Some ?v"
    using get_slot_after [OF Cons.prems(9,10), of ?v ?m] by (simp_all add: get_slot_def)
  have d: "do_use_weight_decay ?self (var_name ?var) = Inr decay"
    using Cons.prems(12) by (simp add: do_use_weight_decay_slots)
  have "\<exists>var' self' v' x'.
           apply_steps ?self ?var gs = Inr (var', self')
         \<and> get_slot self' ?var ''v'' = Some v' \<and> 0 \<le> v' \<and> 0 < sqrt v' + eps
         \<and> var_value var' = Finite x'"
    using Cons.prems(1-8)
    by (intro Cons.IH [where m = ?m and v = ?v and x = x'] gs' v d) simp_all
  then show ?case by (simp add: step get_slot_def)
qed


lemma zeros_slot_settled_id:
  "settled rezero self (slot_name, var_name var) \<Longrightarrow> zeros_slot rezero var slot_name self = self"
  by (simp add: settled_def zeros_slot_def slot_assign_same_value)

lemma in_keys_slot_assign:
  "k \<in> fst ` set (slot_assign k' x kvs) \<longleftrightarrow> k \<in> fst ` set kvs"
proof -
  have "fst ` set (slot_assign k' x kvs) = set (map fst (slot_assign k' x kvs))" by simp
  also have "\<dots> = fst ` set kvs" by (simp only: keys_slot_assign) simp
  finally show ?thesis by simp
qed

lemma map_of_append_present:
  "k \<in> fst ` set kvs \<Longrightarrow> map_of (kvs @ kvs') k = map_of kvs k"
  by (induction kvs) auto

lemma zeros_slot_settles:
  "settled rezero (zeros_slot rezero var slot_name self) (slot_name, var_name var)"
proof (cases "(slot_name, var_name var) \<in> fst ` set (slots self)")
  case True
  then obtain y where "map_of (slots self) (slot_name, var_name var) = Some y"
    by (metis domD dom_map_of_conv_image_fst)
  with True show ?thesis
    by (simp add: settled_def zeros_slot_def in_keys_slot_assign map_of_slot_assign_same)
next
  case False
  then have "map_of (slots self) (slot_name, var_name var) = None"
    by (simp add: map_of_eq_None_iff)
  with False show ?thesis
    by (simp add: settled_def zeros_slot_def map_add_Some_iff)
qed

lemma zeros_slot_keeps_settled:
  assumes "settled rezero self k"
  shows "settled rezero (zeros_slot rezero var slot_name self) k"
proof (cases "k = (slot_name, var_name var)")
  case True
  then show ?thesis by (simp add: zeros_slot_settles)
next
  case False
  with assms show ?thesis
    by (auto simp add: settled_def zeros_slot_def in_keys_slot_assign
        map_of_slot_assign_other map_of_append_present Let_def
        simp del: map_of_append)
qed

lemma create_slots_keeps_settled:
  "settled rezero self k \<Longrightarrow> settled rezero (create_slots rezero var_list self) k"
  by (induction var_list arbitrary: self) (simp_all add: zeros_slot_keeps_settled)

lemma create_slots_settles:
  "v \<in> set var_list \<Longrightarrow>
   settled rezero (create_slots rezero var_list self) (''m'', var_name v)
   \<and> settled rezero (create_slots rezero var_list self) (''v'', var_name v)"
proof (induction var_list arbitrary: self)
  case Nil
  then show ?case by simp
next
  case (Cons a var_list)
  show ?case
  proof (cases "v = a")
    case True
    have "settled rezero (zeros_slot rezero a ''v'' (zeros_slot rezero a ''m'' self))
            (''m'', var_name a)"
      by (intro zeros_slot_keeps_settled zeros_slot_settles)
    moreover
    have "settled rezero (zeros_slot rezero a ''v'' (zeros_slot rezero a ''m'' self))
            (''v'', var_name a)"
      by (rule zeros_slot_settles)
    ultimately show ?thesis using True by (simp add: create_slots_keeps_settled)
  next
    case False
    with Cons.prems have "v \<in> set var_list" by simp
    then show ?thesis by (simp add: Cons.IH)
  qed
qed

lemma create_slots_settled_id:
  "\<forall>v \<in> set var_list. settled rezero self (''m'', var_name v)
                       \<and> settled rezero self (''v'', var_name v)
   \<Longrightarrow> create_slots rezero var_list self = self"
  by (induction var_list) (simp_all add: zeros_slot_settled_id)

lemma create_slots_twice:
  "create_slots rezero var_list (create_slots rezero var_list self)
   = create_slots rezero var_list self"
  by (rule create_slots_settled_id) (simp add: create_slots_settles)

lemma zeros_slot_distinct:
  "distinct (map fst (slots self))
   \<Longrightarrow> distinct (map fst (slots (zeros_slot rezero var slot_name self)))"
  by (simp add: zeros_slot_def keys_slot_assign Let_def)

lemma create_slots_distinct:
  "distinct (map fst (slots self))
   \<Longrightarrow> distinct (map fst (slots (create_slots rezero var_list self)))"
  by (induction var_list arbitrary: self) (simp_all add: zeros_slot_distinct)

subsection \<open>The weight-decay decision\<close>

text \<open>
  C3. If the weight-decay rate is zero (the float \<open>0.0\<close> or the integer \<open>0\<close>),
  \<open>_do_use_weight_decay\<close> returns \<open>False\<close>, for every parameter name and every
  exclusion list; no pattern is looked at, so even a pattern that \<open>re.search\<close>
  would reject cannot change the answer.
\<close>

theorem do_use_weight_decay_zero_rate:
  "weight_decay_rate self = PyFloat 0 \<or> weight_decay_rate self = PyInt 0
   \<Longrightarrow> do_use_weight_decay self param_name = Inr False"
  by (auto simp add: do_use_weight_decay_def)

theorem do_use_weight_decay_zero_rate_witness:
  "weight_decay_rate (default_opt (PyFloat 0) (Some [''bias'', ''(''])) = PyFloat 0
   \<and> do_use_weight_decay (default_opt (PyFloat 0) (Some [''bias'', ''(''])) ''layer1/bias''
       = Inr False"
proof -
  have h: "weight_decay_rate (default_opt (PyFloat 0) (Some [''bias'', ''(''])) = PyFloat 0"
    by (simp add: default_opt_def)
  from h do_use_weight_decay_zero_rate [of "default_opt (PyFloat 0) (Some [''bias'', ''(''])"
      "''layer1/bias''"]
  show ?thesis by simp
qed

text \<open>
  C4. With a nonzero weight-decay rate the exclusion patterns are matched as
  regular expressions, by search and not by full match.
  \<^item> For the name \<open>layer1/bias\<close>: an exclusion list that contains the pattern
    \<open>bias\<close> gives \<open>False\<close>, since the pattern occurs inside the name. This holds
    when all patterns of the list are well-formed, and already when those before
    \<open>bias\<close> are, since the loop stops at the first hit; whatever the other
    patterns are, the answer is never \<open>True\<close>. The exclusion list with only the
    anchored pattern \<open>^bias$\<close> gives \<open>True\<close>.
  \<^item> Search: a single pattern \<open>p\<close> without special characters excludes exactly
    the names in which \<open>p\<close> occurs somewhere.
  \<^item> Anchors: the single pattern \<open>^p$\<close> excludes exactly the name \<open>p\<close> (and
    \<open>p\<close> followed by one newline, as \<open>$\<close> does in Python); so \<open>^bias$\<close> excludes
    the name \<open>bias\<close> although the text \<open>^bias$\<close> does not occur in it.
  \<^item> Wildcard: the pattern \<open>.\<close> excludes every name that has a character other
    than a newline, and \<open>layer./bias\<close> excludes \<open>layer1/bias\<close>.
\<close>

theorem do_use_weight_decay_search_not_fullmatch:
  "(truthy (weight_decay_rate self) \<and> exclude_from_weight_decay self = Some rs
      \<and> ''bias'' \<in> set rs \<and> (\<forall>r \<in> set rs. \<exists>as. re_compile r = Inr as)
    \<longrightarrow> do_use_weight_decay self ''layer1/bias'' = Inr False)
   \<and> (truthy (weight_decay_rate self) \<and> exclude_from_weight_decay self = Some [''^bias$'']
    \<longrightarrow> do_use_weight_decay self ''layer1/bias'' = Inr True)
   \<and> (truthy (weight_decay_rate self)
      \<and> exclude_from_weight_decay self = Some (pre @ ''bias'' # post)
      \<and> (\<forall>r \<in> set pre. \<exists>as. re_compile r = Inr as)
    \<longrightarrow> do_use_weight_decay self ''layer1/bias'' = Inr False)
   \<and> (truthy (weight_decay_rate self) \<and> exclude_from_weight_decay self = Some rs
      \<and> ''bias'' \<in> set rs
    \<longrightarrow> do_use_weight_decay self ''layer1/bias'' \<noteq> Inr True)
   \<and> (truthy (weight_decay_rate self) \<and> exclude_from_weight_decay self = Some [p]
      \<and> is_literal p
    \<longrightarrow> do_use_weight_decay self param_name
          = Inr (\<not> (\<exists>before after. param_name = before @ p @ after)))
   \<and> (truthy (weight_decay_rate self)
      \<and> exclude_from_weight_decay self = Some [CHR ''^'' # p @ ''$'']
      \<and> is_literal p
    \<longrightarrow> do_use_weight_decay self param_name
          = Inr (param_name \<noteq> p \<and> param_name \<noteq> p @ [newline]))
   \<and> (truthy (weight_decay_rate self) \<and> exclude_from_weight_decay self = Some [''.'']
    \<longrightarrow> do_use_weight_decay self param_name = Inr (\<forall>c \<in> set param_name. c = newline))
   \<and> (truthy (weight_decay_rate self)
      \<and> exclude_from_weight_decay self = Some [''layer./bias'']
    \<longrightarrow> do_use_weight_decay self ''layer1/bias'' = Inr False)"
proof (intro conjI impI)
  assume a: "truthy (weight_decay_rate self) \<and> exclude_from_weight_decay self = Some rs
      \<and> ''bias'' \<in> set rs \<and> (\<forall>r \<in> set rs. \<exists>as. re_compile r = Inr as)"
  then have "exclude_loop rs ''layer1/bias'' = Inr False"
    using exclude_loop_hit [of "''bias''" rs "''layer1/bias''"] re_search_bias by blast
  with a show "do_use_weight_decay self ''layer1/bias'' = Inr False"
    by (simp add: do_use_weight_decay_list)
next
  assume "truthy (weight_decay_rate self)
      \<and> exclude_from_weight_decay self = Some [''^bias$'']"
  then show "do_use_weight_decay self ''layer1/bias'' = Inr True"
    by (simp add: do_use_weight_decay_def re_search_anchored_bias)
next
  assume a: "truthy (weight_decay_rate self)
      \<and> exclude_from_weight_decay self = Some (pre @ ''bias'' # post)
      \<and> (\<forall>r \<in> set pre. \<exists>as. re_compile r = Inr as)"
  then have "exclude_loop (pre @ ''bias'' # post) ''layer1/bias'' = Inr False"
    using exclude_loop_first_hit [of pre "''bias''" "''layer1/bias''" post] re_search_bias
    by blast
  with a show "do_use_weight_decay self ''layer1/bias'' = Inr False"
    by (simp add: do_use_weight_decay_list)
next
  assume a: "truthy (weight_decay_rate self) \<and> exclude_from_weight_decay self = Some rs
      \<and> ''bias'' \<in> set rs"
  then have "exclude_loop rs ''layer1/bias'' \<noteq> Inr True"
    using exclude_loop_never_true [of "''bias''" rs "''layer1/bias''"] re_search_bias by blast
  with a show "do_use_weight_decay self ''layer1/bias'' \<noteq> Inr True"
    by (simp add: do_use_weight_decay_list)
next
  assume "truthy (weight_decay_rate self) \<and> exclude_from_weight_decay self = Some [p]
      \<and> is_literal p"
  then show "do_use_weight_decay self param_name
          = Inr (\<not> (\<exists>before after. param_name = before @ p @ after))"
    by (simp add: do_use_weight_decay_list re_search_literal)
next
  assume "truthy (weight_decay_rate self)
      \<and> exclude_from_weight_decay self = Some [CHR ''^'' # p @ ''$'']
      \<and> is_literal p"
  then show "do_use_weight_decay self param_name
          = Inr (param_name \<noteq> p \<and> param_name \<noteq> p @ [newline])"
    by (simp add: do_use_weight_decay_list re_search_anchored del: re_compile.simps)
next
  assume "truthy (weight_decay_rate self) \<and> exclude_from_weight_decay self = Some [''.'']"
  then show "do_use_weight_decay self param_name = Inr (\<forall>c \<in> set param_name. c = newline)"
    by (simp add: do_use_weight_decay_list re_search_dot)
next
  assume "truthy (weight_decay_rate self)
      \<and> exclude_from_weight_decay self = Some [''layer./bias'']"
  then show "do_use_weight_decay self ''layer1/bias'' = Inr False"
    by (simp add: do_use_weight_decay_list re_search_dot_bias)
qed

theorem do_use_weight_decay_search_not_fullmatch_witness:
  "do_use_weight_decay (default_opt (PyFloat (1 / 100)) (Some [''LayerNorm'', ''bias'']))
     ''layer1/bias'' = Inr False
   \<and> do_use_weight_decay (default_opt (PyFloat (1 / 100)) (Some [''^bias$'']))
     ''layer1/bias'' = Inr True
   \<and> do_use_weight_decay (default_opt (PyFloat (1 / 100)) (Some [''LayerNorm'', ''bias'', ''(''])) 
     ''layer1/bias'' = Inr False
   \<and> do_use_weight_decay (default_opt (PyFloat (1 / 100)) (Some [''('', ''bias'']))
     ''layer1/bias'' \<noteq> Inr True
   \<and> do_use_weight_decay (default_opt (PyFloat (1 / 100)) (Some [''bias'']))
     ''layer1/bias_correction'' = Inr False
   \<and> do_use_weight_decay (default_opt (PyFloat (1 / 100)) (Some [''^bias$'']))
     ''bias'' = Inr False
   \<and> do_use_weight_decay (default_opt (PyFloat (1 / 100)) (Some [''.'']))
     ''w'' = Inr False
   \<and> do_use_weight_decay (default_opt (PyFloat (1 / 100)) (Some [''layer./bias'']))
     ''layer1/bias'' = Inr False"
proof -
  let ?o = "\<lambda>rs. default_opt (PyFloat (1 / 100)) (Some rs)"
  have t: "truthy (weight_decay_rate (?o rs))" for rs
    by (simp add: default_opt_def)
  have e: "exclude_from_weight_decay (?o rs) = Some rs" for rs
    by (simp add: default_opt_def)
  have lit: "is_literal ''bias''"
    by (simp add: is_literal_def metachars_def)
  have c: "\<forall>r \<in> set [''LayerNorm'', ''bias'']. \<exists>as. re_compile r = Inr as"
    by (simp add: metachars_def)
  have sub: "\<exists>before after. ''layer1/bias_correction'' = before @ ''bias'' @ after"
  proof -
    have "''layer1/bias_correction'' = ''layer1/'' @ ''bias'' @ ''_correction''" by simp
    then show ?thesis by blast
  qed
  have 1: "do_use_weight_decay (?o [''LayerNorm'', ''bias'']) ''layer1/bias'' = Inr False"
    using do_use_weight_decay_search_not_fullmatch [of "?o [''LayerNorm'', ''bias'']" "[''LayerNorm'', ''bias'']"] t e c
    by simp
  have 2: "do_use_weight_decay (?o [''^bias$'']) ''layer1/bias'' = Inr True"
    using do_use_weight_decay_search_not_fullmatch [of "?o [''^bias$'']"] t e by simp
  have 3: "do_use_weight_decay (?o [''LayerNorm'', ''bias'', ''('']) ''layer1/bias'' = Inr False"
    using do_use_weight_decay_search_not_fullmatch [of "?o [''LayerNorm'', ''bias'', ''('']" _ "[''LayerNorm'']" "[''('']"] t e
    by (simp add: metachars_def)
  have 4: "do_use_weight_decay (?o [''('', ''bias'']) ''layer1/bias'' \<noteq> Inr True"
    using do_use_weight_decay_search_not_fullmatch [of "?o [''('', ''bias'']" "[''('', ''bias'']"] t e by simp
  have 5: "do_use_weight_decay (?o [''bias'']) ''layer1/bias_correction'' = Inr False"
    using do_use_weight_decay_search_not_fullmatch [of "?o [''bias'']" _ _ _ "''bias''" "''layer1/bias_correction''"] t e lit sub
    by simp
  have 6: "do_use_weight_decay (?o [''^bias$'']) ''bias'' = Inr False"
    using do_use_weight_decay_search_not_fullmatch [of "?o [''^bias$'']" _ _ _ "''bias''" "''bias''"] t e lit
    by simp
  have 7: "do_use_weight_decay (?o [''.'']) ''w'' = Inr False"
    using do_use_weight_decay_search_not_fullmatch [of "?o [''.'']" _ _ _ _ "''w''"] t e
    by (simp add: newline_def)
  have 8: "do_use_weight_decay (?o [''layer./bias'']) ''layer1/bias'' = Inr False"
    using do_use_weight_decay_search_not_fullmatch [of "?o [''layer./bias'']"] t e by simp
  from 1 2 3 4 5 6 7 8 show ?thesis by simp
qed

text \<open>
  C10. With a truthy weight-decay rate and an exclusion list that is \<open>None\<close> or
  empty, \<open>_do_use_weight_decay\<close> returns \<open>True\<close> for every parameter name. Every
  falsy rate makes it return \<open>False\<close>, and the falsy rates are \<open>None\<close>, \<open>False\<close>,
  the integer \<open>0\<close> and the float \<open>0.0\<close>, not the literal \<open>0\<close> alone.
\<close>

theorem do_use_weight_decay_no_exclusions:
  "(truthy (weight_decay_rate self)
      \<and> (exclude_from_weight_decay self = None \<or> exclude_from_weight_decay self = Some [])
    \<longrightarrow> do_use_weight_decay self param_name = Inr True)
   \<and> (\<not> truthy (weight_decay_rate self)
    \<longrightarrow> do_use_weight_decay self param_name = Inr False)
   \<and> (\<not> truthy wd \<longleftrightarrow> wd = PyNone \<or> wd = PyBool False \<or> wd = PyInt 0 \<or> wd = PyFloat 0)"
proof (intro conjI impI)
  show "(\<not> truthy wd) = (wd = PyNone \<or> wd = PyBool False \<or> wd = PyInt 0 \<or> wd = PyFloat 0)"
    by (cases wd) simp_all
qed (auto simp add: do_use_weight_decay_def)

theorem do_use_weight_decay_no_exclusions_witness:
  "do_use_weight_decay (default_opt (PyFloat (1 / 100)) None) ''layer1/bias'' = Inr True
   \<and> do_use_weight_decay (default_opt (PyInt 2) (Some [])) ''layer1/kernel'' = Inr True
   \<and> do_use_weight_decay (default_opt PyNone (Some [''bias''])) ''layer1/bias'' = Inr False
   \<and> do_use_weight_decay (default_opt (PyBool False) None) ''layer1/bias'' = Inr False"
proof -
  have "do_use_weight_decay (default_opt (PyFloat (1 / 100)) None) ''layer1/bias'' = Inr True"
    using do_use_weight_decay_no_exclusions
      [of "default_opt (PyFloat (1 / 100)) None" "''layer1/bias''"]
    by (simp add: default_opt_def)
  moreover
  have "do_use_weight_decay (default_opt (PyInt 2) (Some [])) ''layer1/kernel'' = Inr True"
    using do_use_weight_decay_no_exclusions
      [of "default_opt (PyInt 2) (Some [])" "''layer1/kernel''"]
    by (simp add: default_opt_def)
  moreover
  have "do_use_weight_decay (default_opt PyNone (Some [''bias''])) ''layer1/bias'' = Inr False"
    using do_use_weight_decay_no_exclusions
      [of "default_opt PyNone (Some [''bias''])" "''layer1/bias''"]
    by (simp add: default_opt_def)
  moreover
  have "do_use_weight_decay (default_opt (PyBool False) None) ''layer1/bias'' = Inr False"
    using do_use_weight_decay_no_exclusions
      [of "default_opt (PyBool False) None" "''layer1/bias''"]
    by (simp add: default_opt_def)
  ultimately show ?thesis by simp
qed

subsection \<open>The update rule\<close>

text \<open>
  C1. On a prepared optimizer that holds the accumulators \<open>m\<close> and \<open>v\<close> of the
  parameter, one call of \<open>_resource_apply_dense\<close> returns, and it commits exactly
  \<open>next_m = beta_1 * m + (1 - beta_1) * grad\<close>,
  \<open>next_v = beta_2 * v + (1 - beta_2) * grad^2\<close> and
  \<open>next_var = var - learning_rate * update\<close>, where
  \<open>update = next_m / (sqrt(next_v) + epsilon)\<close>, plus \<open>weight_decay_rate * var\<close>
  when weight decay applies. \<open>_apply_dense\<close> commits the same whenever the lookup
  of \<open>_get_variable_name\<close> succeeds and leads to the same decision. Where the
  square root and the division are defined, the new value is the real number of
  the last conjunct. The state is arbitrary, so this is what every step of a run
  computes: the step takes no step count and divides by neither
  \<open>1 - beta_1^t\<close> nor \<open>1 - beta_2^t\<close>.
\<close>

theorem apply_update_rule:
  assumes "learning_rate_t self = Some lr" and "beta_1_t self = Some b1"
    and "beta_2_t self = Some b2" and "epsilon_t self = Some eps"
    and "weight_decay_rate_t self = Some wd"
    and "get_slot self var ''m'' = Some m" and "get_slot self var ''v'' = Some v"
    and "do_use_weight_decay self (var_name var) = Inr decay"
    and "next_m = b1 * m + (1 - b1) * grad"
    and "next_v = b2 * v + (1 - b2) * grad\<^sup>2"
    and "update = t_div (Finite next_m) (t_add (t_sqrt next_v) (Finite eps))"
  shows "\<exists>var' self'.
           resource_apply_dense self grad var = Inr (var', self')
         \<and> (\<forall>f. do_use_weight_decay self (f var) = Inr decay
               \<longrightarrow> apply_dense (Some f) self grad var = Inr (var', self'))
         \<and> get_slot self' var ''m'' = Some next_m
         \<and> get_slot self' var ''v'' = Some next_v
         \<and> var_value var' =
             t_sub (var_value var)
               (t_mul (Finite lr)
                  (if decay then t_add update (t_mul (Finite wd) (var_value var)) else update))
         \<and> (\<forall>x. var_value var = Finite x \<and> 0 \<le> next_v \<and> sqrt next_v + eps \<noteq> 0
               \<longrightarrow> var_value var' =
                     Finite (x - lr * (next_m / (sqrt next_v + eps)
                                       + (if decay then wd * x else 0))))"
proof -
  let ?self' = "self\<lparr>slots := slot_assign (''v'', var_name var) next_v
                          (slot_assign (''m'', var_name var) next_m (slots self))\<rparr>"
  let ?val = "t_sub (var_value var)
               (t_mul (Finite lr)
                  (if decay then t_add update (t_mul (Finite wd) (var_value var)) else update))"
  let ?var' = "var\<lparr>var_value := ?val\<rparr>"
  have sq: "grad\<^sup>2 = grad * grad" by (simp add: power2_eq_square)
  have r: "resource_apply_dense self grad var = Inr (?var', ?self')"
    using assms(1-8) unfolding assms(9-11) sq
    by (simp add: resource_apply_dense_result)
  have a: "\<forall>f. do_use_weight_decay self (f var) = Inr decay
               \<longrightarrow> apply_dense (Some f) self grad var = Inr (?var', ?self')"
    using assms(1-7) unfolding assms(9-11) sq
    by (simp add: apply_dense_result)
  have gm: "get_slot ?self' var ''m'' = Some next_m"
    using assms(6,7) by (rule get_slot_after(1))
  have gv: "get_slot ?self' var ''v'' = Some next_v"
    using assms(6,7) by (rule get_slot_after(2))
  have fin: "\<forall>x. var_value var = Finite x \<and> 0 \<le> next_v \<and> sqrt next_v + eps \<noteq> 0
               \<longrightarrow> ?val = Finite (x - lr * (next_m / (sqrt next_v + eps)
                                       + (if decay then wd * x else 0)))"
    unfolding assms(11) by (simp add: t_sqrt_def)
  from r a gm gv fin show ?thesis by simp
qed

text \<open>
  The instance of the spec's end-to-end example: the default hyperparameters,
  learning rate 0.01, no weight decay, \<open>m = v = 0\<close>, \<open>var = 1.0\<close>, \<open>grad = 0.5\<close>.
\<close>

theorem apply_update_rule_witness:
  "\<exists>var' self'.
     resource_apply_dense (fresh_opt 0 None ''w'') (1 / 2)
         \<lparr>var_name = ''w'', var_value = Finite 1\<rparr> = Inr (var', self')
     \<and> apply_dense (Some var_name) (fresh_opt 0 None ''w'') (1 / 2)
         \<lparr>var_name = ''w'', var_value = Finite 1\<rparr> = Inr (var', self')
     \<and> get_slot self' \<lparr>var_name = ''w'', var_value = Finite 1\<rparr> ''m'' = Some (1 / 20)
     \<and> get_slot self' \<lparr>var_name = ''w'', var_value = Finite 1\<rparr> ''v'' = Some (1 / 4000)
     \<and> var_value var' = Finite (1 - 1 / 100 * (1 / 20 / (sqrt (1 / 4000) + 1 / 1000000)))"
proof -
  let ?self = "fresh_opt 0 None ''w''"
  let ?var = "\<lparr>var_name = ''w'', var_value = Finite 1\<rparr>"
  have h1: "learning_rate_t ?self = Some (1 / 100)" "beta_1_t ?self = Some (9 / 10)"
    "beta_2_t ?self = Some (999 / 1000)" "epsilon_t ?self = Some (1 / 1000000)"
    "weight_decay_rate_t ?self = Some 0"
    by (simp_all add: attrs_fresh_opt)
  have h2: "get_slot ?self ?var ''m'' = Some 0" "get_slot ?self ?var ''v'' = Some 0"
    by (simp_all add: get_slot_fresh_opt)
  have h3: "do_use_weight_decay ?self (var_name ?var) = Inr False"
    by (simp add: do_use_weight_decay_def attrs_fresh_opt)
  have h4: "(1 / 20 :: real) = 9 / 10 * 0 + (1 - 9 / 10) * (1 / 2)"
    "(1 / 4000 :: real) = 999 / 1000 * 0 + (1 - 999 / 1000) * (1 / 2)\<^sup>2"
    by (simp_all add: power2_eq_square)
  have pos: "sqrt (1 / 4000) + 1 / 1000000 \<noteq> (0 :: real)"
  proof -
    have "0 \<le> sqrt (1 / 4000 :: real)" by simp
    then show ?thesis by linarith
  qed
  from apply_update_rule [OF h1 h2 h3 h4 refl]
  obtain var' self' where
    r: "resource_apply_dense ?self (1 / 2) ?var = Inr (var', self')"
    and a: "\<forall>f. do_use_weight_decay ?self (f ?var) = Inr False
               \<longrightarrow> apply_dense (Some f) ?self (1 / 2) ?var = Inr (var', self')"
    and gm: "get_slot self' ?var ''m'' = Some (1 / 20)"
    and gv: "get_slot self' ?var ''v'' = Some (1 / 4000)"
    and fin: "\<forall>x. var_value ?var = Finite x \<and> 0 \<le> (1 / 4000 :: real)
                  \<and> sqrt (1 / 4000) + 1 / 1000000 \<noteq> (0 :: real)
               \<longrightarrow> var_value var' =
                     Finite (x - 1 / 100 * (1 / 20 / (sqrt (1 / 4000) + 1 / 1000000)
                                       + (if False then 0 * x else 0)))"
    by blast
  from a h3 have a': "apply_dense (Some var_name) ?self (1 / 2) ?var = Inr (var', self')"
    by blast
  from fin pos
  have "var_value var' = Finite (1 - 1 / 100 * (1 / 20 / (sqrt (1 / 4000) + 1 / 1000000)))"
    by simp
  with r a' gm gv show ?thesis by blast
qed

subsection \<open>Construction\<close>

text \<open>
  C2, as the spec states it, fails: \<open>__init__\<close> validates no hyperparameter. With
  \<open>beta_1 = 2\<close>, \<open>beta_2 = -1\<close> and \<open>epsilon = 0\<close> the constructor returns an
  optimizer and reports no error.
\<close>

theorem init_accepts_invalid_hyperparameters:
  "init (PyFloat (1 / 100)) (PyFloat 0) (PyFloat 2) (PyFloat (- 1)) (PyFloat 0) None
     ''AdamWeightDecayOptimizer''
   = Inr \<lparr>opt_name = ''AdamWeightDecayOptimizer'',
          learning_rate = PyFloat (1 / 100),
          weight_decay_rate = PyFloat 0,
          beta_1 = PyFloat 2,
          beta_2 = PyFloat (- 1),
          epsilon = PyFloat 0,
          exclude_from_weight_decay = None,
          learning_rate_t = None,
          weight_decay_rate_t = None,
          beta_1_t = None,
          beta_2_t = None,
          epsilon_t = None,
          slots = []\<rparr>"
  by (simp add: init_def)

text \<open>
  C2, amended. Construction validates none of \<open>beta_1\<close>, \<open>beta_2\<close> and
  \<open>epsilon\<close>: for every value of the hyperparameters and every non-empty optimizer
  name, \<open>__init__\<close> returns an optimizer that stores them unchanged, and so reports
  no configuration error.
\<close>

theorem init_stores_hyperparameters:
  "name \<noteq> [] \<Longrightarrow>
   \<exists>opt. init lr wd b1 b2 eps excl name = Inr opt
       \<and> learning_rate opt = lr \<and> weight_decay_rate opt = wd
       \<and> beta_1 opt = b1 \<and> beta_2 opt = b2 \<and> epsilon opt = eps
       \<and> exclude_from_weight_decay opt = excl"
  by (simp add: init_def)

theorem init_stores_hyperparameters_witness:
  "''Adam'' \<noteq> []
   \<and> (\<exists>opt. init (PyFloat (1 / 100)) (PyFloat 0) (PyFloat (3 / 2)) (PyFloat 0) (PyFloat (- 1))
              None ''Adam'' = Inr opt
          \<and> learning_rate opt = PyFloat (1 / 100) \<and> weight_decay_rate opt = PyFloat 0
          \<and> beta_1 opt = PyFloat (3 / 2) \<and> beta_2 opt = PyFloat 0
          \<and> epsilon opt = PyFloat (- 1)
          \<and> exclude_from_weight_decay opt = None)"
proof -
  have h: "''Adam'' \<noteq> []" by simp
  from h init_stores_hyperparameters [OF h] show ?thesis by blast
qed

subsection \<open>Zero gradients\<close>

text \<open>
  C5, as the spec states it, fails when \<open>epsilon\<close> is zero, a value the
  constructor accepts: with a zero gradient and zero accumulators the update is
  \<open>0 / (sqrt 0 + 0)\<close>, which is not a number, and the parameter \<open>1.0\<close>, to which
  weight decay does not apply, is overwritten with it.
\<close>

theorem zero_gradient_nan_when_epsilon_zero:
  "do_use_weight_decay zero_eps_opt ''w'' = Inr False
   \<and> get_slot zero_eps_opt \<lparr>var_name = ''w'', var_value = Finite 1\<rparr> ''m'' = Some 0
   \<and> get_slot zero_eps_opt \<lparr>var_name = ''w'', var_value = Finite 1\<rparr> ''v'' = Some 0
   \<and> resource_apply_dense zero_eps_opt 0 \<lparr>var_name = ''w'', var_value = Finite 1\<rparr>
     = Inr (\<lparr>var_name = ''w'', var_value = NonFinite\<rparr>, zero_eps_opt)"
proof -
  let ?var = "\<lparr>var_name = ''w'', var_value = Finite 1\<rparr>"
  have a: "learning_rate_t zero_eps_opt = Some (1 / 100)" "beta_1_t zero_eps_opt = Some (9 / 10)"
    "beta_2_t zero_eps_opt = Some (999 / 1000)" "epsilon_t zero_eps_opt = Some 0"
    "weight_decay_rate_t zero_eps_opt = Some 0"
    by (simp_all add: zero_eps_opt_def attrs_fresh_opt)
  have s: "slots zero_eps_opt = [((''m'', ''w''), 0), ((''v'', ''w''), 0)]"
    by (simp add: zero_eps_opt_def slots_fresh_opt)
  have g: "get_slot zero_eps_opt ?var ''m'' = Some 0" "get_slot zero_eps_opt ?var ''v'' = Some 0"
    by (simp_all add: get_slot_def s)
  have d: "do_use_weight_decay zero_eps_opt (var_name ?var) = Inr False"
    by (simp add: do_use_weight_decay_def zero_eps_opt_def attrs_fresh_opt)
  have "resource_apply_dense zero_eps_opt 0 ?var
     = Inr (\<lparr>var_name = ''w'', var_value = NonFinite\<rparr>, zero_eps_opt)"
    by (simp add: resource_apply_dense_result [OF a g d] t_sqrt_def s)
  with g d show ?thesis by simp
qed

text \<open>
  C5, amended. Let \<open>epsilon\<close> be nonzero, the accumulators of the parameter be
  zero and every gradient be zero. If weight decay does not apply to the
  parameter, any number of steps leaves the optimizer, with \<open>m\<close> and \<open>v\<close> still
  zero, and the parameter exactly as they were. If weight decay applies, a step
  still leaves \<open>m\<close> and \<open>v\<close> zero, and the only change is the decay term, added to
  the zero update before the scaling by the learning rate:
  \<open>next_var = var - learning_rate * (0 + weight_decay_rate * var)\<close>; after \<open>n\<close>
  steps a finite parameter \<open>x\<close> has become \<open>x * (1 - learning_rate * weight_decay_rate)^n\<close>.
\<close>

theorem zero_gradient_fixed_point:
  assumes "learning_rate_t self = Some lr" and "beta_1_t self = Some b1"
    and "beta_2_t self = Some b2" and "epsilon_t self = Some eps"
    and "weight_decay_rate_t self = Some wd"
    and "get_slot self var ''m'' = Some 0" and "get_slot self var ''v'' = Some 0"
    and "do_use_weight_decay self (var_name var) = Inr decay"
    and "eps \<noteq> 0"
  shows "(\<not> decay \<longrightarrow> apply_steps self var (replicate n 0) = Inr (var, self))
       \<and> (decay \<longrightarrow>
            resource_apply_dense self 0 var =
              Inr (var\<lparr>var_value :=
                        t_sub (var_value var)
                          (t_mul (Finite lr)
                             (t_add (Finite 0) (t_mul (Finite wd) (var_value var))))\<rparr>, self)
          \<and> (\<forall>x. var_value var = Finite x \<longrightarrow>
                apply_steps self var (replicate n 0) =
                  Inr (var\<lparr>var_value := Finite (x * (1 - lr * wd) ^ n)\<rparr>, self)))"
proof (intro conjI impI allI)
  assume nd: "\<not> decay"
  have one: "resource_apply_dense self 0 var = Inr (var, self)"
    using step_zero_gradient [OF assms] nd by (simp add: t_sub_zero_update)
  show "apply_steps self var (replicate n 0) = Inr (var, self)"
    by (induction n) (simp_all add: one)
next
  assume d: decay
  show "resource_apply_dense self 0 var =
              Inr (var\<lparr>var_value :=
                        t_sub (var_value var)
                          (t_mul (Finite lr)
                             (t_add (Finite 0) (t_mul (Finite wd) (var_value var))))\<rparr>, self)"
    using step_zero_gradient [OF assms] d by simp
next
  fix x
  assume d: decay and x: "var_value var = Finite x"
  have "apply_steps self (var\<lparr>var_value := Finite y\<rparr>) (replicate n 0) =
                  Inr (var\<lparr>var_value := Finite (y * (1 - lr * wd) ^ n)\<rparr>, self)" for y
  proof (induction n arbitrary: y)
    case 0
    show ?case by simp
  next
    case (Suc n)
    let ?v = "var\<lparr>var_value := Finite y\<rparr>"
    have g: "get_slot self ?v ''m'' = Some 0" "get_slot self ?v ''v'' = Some 0"
      using assms(6,7) by (simp_all add: get_slot_def)
    have dd: "do_use_weight_decay self (var_name ?v) = Inr decay"
      using assms(8) by simp
    have one: "resource_apply_dense self 0 ?v
        = Inr (var\<lparr>var_value := Finite (y * (1 - lr * wd))\<rparr>, self)"
      using step_zero_gradient [OF assms(1-5) g dd assms(9)] d
      by (simp add: algebra_simps)
    show ?case
      by (simp add: one Suc.IH power_commutes mult.assoc)
  qed
  from this [of x] x
  show "apply_steps self var (replicate n 0) =
                  Inr (var\<lparr>var_value := Finite (x * (1 - lr * wd) ^ n)\<rparr>, self)"
    by (metis var_value_same)
qed

theorem zero_gradient_fixed_point_witness:
  "apply_steps (fresh_opt 0 None ''w'') \<lparr>var_name = ''w'', var_value = Finite 1\<rparr>
     (replicate 3 0)
   = Inr (\<lparr>var_name = ''w'', var_value = Finite 1\<rparr>, fresh_opt 0 None ''w'')
   \<and> apply_steps (fresh_opt (1 / 100) None ''w'') \<lparr>var_name = ''w'', var_value = Finite 1\<rparr>
     (replicate 2 0)
   = Inr (\<lparr>var_name = ''w'', var_value = Finite (1 * (1 - 1 / 100 * (1 / 100)) ^ 2)\<rparr>,
          fresh_opt (1 / 100) None ''w'')"
proof -
  let ?var = "\<lparr>var_name = ''w'', var_value = Finite 1\<rparr>"
  have e: "(1 / 1000000 :: real) \<noteq> 0" by simp
  have d0: "do_use_weight_decay (fresh_opt 0 None ''w'') (var_name ?var) = Inr False"
    by (simp add: do_use_weight_decay_def attrs_fresh_opt)
  have d1: "do_use_weight_decay (fresh_opt (1 / 100) None ''w'') (var_name ?var) = Inr True"
    by (simp add: do_use_weight_decay_def attrs_fresh_opt)
  from zero_gradient_fixed_point
    [OF attrs_fresh_opt(1-5) get_slot_fresh_opt d0 e, where n = 3]
  have "apply_steps (fresh_opt 0 None ''w'') ?var (replicate 3 0)
        = Inr (?var, fresh_opt 0 None ''w'')"
    by simp
  moreover
  from zero_gradient_fixed_point
    [OF attrs_fresh_opt(1-5) get_slot_fresh_opt d1 e, where n = 2]
  have "apply_steps (fresh_opt (1 / 100) None ''w'') ?var (replicate 2 0)
        = Inr (\<lparr>var_name = ''w'', var_value = Finite (1 * (1 - 1 / 100 * (1 / 100)) ^ 2)\<rparr>,
               fresh_opt (1 / 100) None ''w'')"
    by simp
  ultimately show ?thesis by blast
qed

subsection \<open>Independence of the parameter's value\<close>

text \<open>
  C6. When the weight-decay rate is zero (or falsy in any other way), the
  quantity \<open>u = learning_rate * update\<close> that a step subtracts from the parameter
  does not depend on the parameter's current value: two steps from the same
  optimizer state with the same gradient, on parameter values \<open>x1\<close> and \<open>x2\<close>,
  both return, subtract the same \<open>u\<close>, so that \<open>var - next_var\<close> is \<open>u\<close> in both,
  and leave the same accumulators.
\<close>

theorem update_independent_of_value:
  assumes "learning_rate_t self = Some lr" and "beta_1_t self = Some b1"
    and "beta_2_t self = Some b2" and "epsilon_t self = Some eps"
    and "weight_decay_rate_t self = Some wd"
    and "get_slot self var1 ''m'' = Some m" and "get_slot self var1 ''v'' = Some v"
    and "\<not> truthy (weight_decay_rate self)"
    and "var_name var2 = var_name var1"
    and "var_value var1 = Finite x1" and "var_value var2 = Finite x2"
  shows "\<exists>u var1' var2' self'.
           resource_apply_dense self grad var1 = Inr (var1', self')
         \<and> resource_apply_dense self grad var2 = Inr (var2', self')
         \<and> var_value var1' = t_sub (Finite x1) u
         \<and> var_value var2' = t_sub (Finite x2) u
         \<and> t_sub (var_value var1) (var_value var1') = u
         \<and> t_sub (var_value var2) (var_value var2') = u"
proof -
  let ?u = "t_mul (Finite lr) (t_div (Finite (b1 * m + (1 - b1) * grad))
                            (t_add (t_sqrt (b2 * v + (1 - b2) * (grad * grad)))
                               (Finite eps)))"
  have d1: "do_use_weight_decay self (var_name var1) = Inr False"
    using assms(8) by (simp add: do_use_weight_decay_def)
  have d2: "do_use_weight_decay self (var_name var2) = Inr False"
    using assms(8) by (simp add: do_use_weight_decay_def)
  have g2: "get_slot self var2 ''m'' = Some m" "get_slot self var2 ''v'' = Some v"
    using assms(6,7,9) by (simp_all add: get_slot_def)
  have tsub_tsub: "t_sub (Finite y) (t_sub (Finite y) ?u) = ?u" for y
    by (cases "?u") simp_all
  note r1 = resource_apply_dense_result [OF assms(1-7) d1, of grad]
  note r2 = resource_apply_dense_result [OF assms(1-5) g2 d2, of grad]
  show ?thesis
    apply (rule exI [of _ ?u])
    apply (simp add: r1 r2 assms(9,10,11) del: t_sub.simps)
    apply (simp only: tsub_tsub)
    done
qed

theorem update_independent_of_value_witness:
  "\<exists>u var1' var2' self'.
     resource_apply_dense (fresh_opt 0 None ''w'') (1 / 2)
       \<lparr>var_name = ''w'', var_value = Finite 1\<rparr> = Inr (var1', self')
     \<and> resource_apply_dense (fresh_opt 0 None ''w'') (1 / 2)
       \<lparr>var_name = ''w'', var_value = Finite 5\<rparr> = Inr (var2', self')
     \<and> var_value var1' = t_sub (Finite 1) u
     \<and> var_value var2' = t_sub (Finite 5) u
     \<and> t_sub (Finite 1) (var_value var1') = u
     \<and> t_sub (Finite 5) (var_value var2') = u"
proof -
  have f: "\<not> truthy (weight_decay_rate (fresh_opt 0 None ''w''))"
    by (simp add: attrs_fresh_opt)
  have n: "var_name \<lparr>var_name = ''w'', var_value = Finite 5\<rparr>
           = var_name \<lparr>var_name = ''w'', var_value = Finite 1\<rparr>"
    by simp
  have x: "var_value \<lparr>var_name = ''w'', var_value = Finite 1\<rparr> = Finite 1"
    "var_value \<lparr>var_name = ''w'', var_value = Finite 5\<rparr> = Finite 5"
    by simp_all
  from update_independent_of_value
    [OF attrs_fresh_opt(1-5) get_slot_fresh_opt f n x, of "1 / 2"]
  show ?thesis by simp
qed

subsection \<open>Slot creation\<close>

text \<open>
  C7. \<open>_create_slots\<close> is idempotent, whichever of the two behaviours the spec
  permits \<open>_zeros_slot\<close> has on an existing accumulator: a second call for the same
  parameters returns the optimizer of the first call unchanged, so every
  following update step behaves the same, and a slot table without duplicate
  accumulators has none afterwards.
\<close>

theorem create_slots_idempotent:
  "create_slots rezero var_list (create_slots rezero var_list self)
     = create_slots rezero var_list self
   \<and> resource_apply_dense (create_slots rezero var_list (create_slots rezero var_list self))
       grad var
     = resource_apply_dense (create_slots rezero var_list self) grad var
   \<and> (distinct (map fst (slots self))
      \<longrightarrow> distinct (map fst
            (slots (create_slots rezero var_list (create_slots rezero var_list self)))))"
  by (simp add: create_slots_twice create_slots_distinct)

theorem create_slots_idempotent_witness:
  "distinct (map fst (slots (prepared_opt 0 None)))
   \<and> distinct (map fst (slots
       (create_slots False
          [\<lparr>var_name = ''w'', var_value = Finite 1\<rparr>, \<lparr>var_name = ''b'', var_value = Finite 0\<rparr>]
          (create_slots False
             [\<lparr>var_name = ''w'', var_value = Finite 1\<rparr>,
              \<lparr>var_name = ''b'', var_value = Finite 0\<rparr>]
             (prepared_opt 0 None)))))"
proof -
  have h: "distinct (map fst (slots (prepared_opt 0 None)))"
    by (simp add: prepared_opt_def default_opt_def)
  from h create_slots_idempotent
    [of False "[\<lparr>var_name = ''w'', var_value = Finite 1\<rparr>,
                \<lparr>var_name = ''b'', var_value = Finite 0\<rparr>]" "prepared_opt 0 None"]
  show ?thesis by blast
qed

subsection \<open>The two dense paths\<close>

text \<open>
  C8 does not hold of the code. \<open>_apply_dense\<close> calls
  \<open>self._get_variable_name(var)\<close>, a method that the class does not define, so the
  call raises an AttributeError and nothing is assigned, while
  \<open>_resource_apply_dense\<close> on the same optimizer, gradient and parameter commits the
  update (here, with a zero gradient on fresh accumulators, the unchanged values).
\<close>

theorem apply_dense_raises_attribute_error:
  "apply_dense None (fresh_opt 0 None ''w'') 0 \<lparr>var_name = ''w'', var_value = Finite 1\<rparr>
     = Inl AttributeError
   \<and> resource_apply_dense (fresh_opt 0 None ''w'') 0 \<lparr>var_name = ''w'', var_value = Finite 1\<rparr>
     = Inr (\<lparr>var_name = ''w'', var_value = Finite 1\<rparr>, fresh_opt 0 None ''w'')"
proof -
  let ?self = "fresh_opt 0 None ''w''"
  let ?var = "\<lparr>var_name = ''w'', var_value = Finite 1\<rparr>"
  have d: "do_use_weight_decay ?self (var_name ?var) = Inr False"
    by (simp add: do_use_weight_decay_def attrs_fresh_opt)
  have "apply_dense None ?self 0 ?var = Inl AttributeError"
    by (rule apply_dense_undefined_method [OF attrs_fresh_opt(1-5) get_slot_fresh_opt])
  moreover have "resource_apply_dense ?self 0 ?var = Inr (?var, ?self)"
    by (simp add: resource_apply_dense_result [OF attrs_fresh_opt(1-5) get_slot_fresh_opt d]
        t_sqrt_def slots_fresh_opt)
  ultimately show ?thesis by simp
qed

subsection \<open>The second moment stays nonnegative\<close>

text \<open>
  C9. For \<open>beta_2\<close> in \<open>(0,1)\<close> and \<open>epsilon > 0\<close>, starting from a zero \<open>v\<close> and a
  finite parameter, every run of update steps returns, and after it \<open>v\<close> is
  nonnegative, the denominator \<open>sqrt v + epsilon\<close> is strictly positive, and the
  parameter is still finite: no step has divided by zero or taken the root of a
  negative number, since a non-finite value would have stayed in the parameter.
\<close>

theorem second_moment_nonnegative:
  assumes "learning_rate_t self = Some lr" and "beta_1_t self = Some b1"
    and "beta_2_t self = Some b2" and "epsilon_t self = Some eps"
    and "weight_decay_rate_t self = Some wd"
    and "0 < b2" and "b2 < 1" and "0 < eps"
    and "get_slot self var ''m'' = Some m" and "get_slot self var ''v'' = Some 0"
    and "do_use_weight_decay self (var_name var) = Inr decay"
    and "var_value var = Finite x"
  shows "\<exists>var' self' v' x'.
           apply_steps self var gs = Inr (var', self')
         \<and> get_slot self' var ''v'' = Some v' \<and> 0 \<le> v' \<and> 0 < sqrt v' + eps
         \<and> var_value var' = Finite x'"
proof -
  have z: "(0 :: real) \<le> 0" by simp
  show ?thesis
    by (rule apply_steps_invariant [OF assms(1-10) z assms(11,12)])
qed

theorem second_moment_nonnegative_witness:
  "\<exists>var' self' v' x'.
     apply_steps (fresh_opt (1 / 100) None ''w'') \<lparr>var_name = ''w'', var_value = Finite 1\<rparr>
       [1 / 2, - 3, 0] = Inr (var', self')
     \<and> get_slot self' \<lparr>var_name = ''w'', var_value = Finite 1\<rparr> ''v'' = Some v'
     \<and> 0 \<le> v' \<and> 0 < sqrt v' + 1 / 1000000
     \<and> var_value var' = Finite x'"
proof -
  let ?var = "\<lparr>var_name = ''w'', var_value = Finite 1\<rparr>"
  have b: "(0 :: real) < 999 / 1000" "(999 / 1000 :: real) < 1" "(0 :: real) < 1 / 1000000"
    by simp_all
  have d: "do_use_weight_decay (fresh_opt (1 / 100) None ''w'') (var_name ?var) = Inr True"
    by (simp add: do_use_weight_decay_def attrs_fresh_opt)
  have x: "var_value ?var = Finite 1" by simp
  from second_moment_nonnegative [OF attrs_fresh_opt(1-5) b get_slot_fresh_opt d x]
  show ?thesis by blast
qed

end
